theory Spec2Isabelle
  imports
    Main
    "HOL-Library.Word"
    "HOL-Library.Char_ord"
    "HOL-Library.List_Lexorder"
    "HOL-Library.AList"
begin

section \<open>Data model of kafka-client/main.go\<close>

text \<open>
  Go strings are byte sequences and \<open>string\<close> is a list of 8-bit characters; with
  the orders of \<open>Char_ord\<close> and \<open>List_Lexorder\<close>, \<open><\<close> on \<open>string\<close> is Go's
  \<open><\<close> on strings: bytewise, lexicographic.

  A Go map is modelled as an association list with pairwise distinct keys. The order of
  the list is the order in which one \<open>range\<close> loop enumerates the map, which the Go
  runtime chooses freely; theorems therefore quantify over every such order. A map
  that may be \<open>nil\<close> is an \<open>option\<close> of such a list, and so is a slice that may be
  \<open>nil\<close>.
\<close>

type_synonym int32 = "32 word"
type_synonym int16 = "16 word"

type_synonym ('k, 'v) gomap = "('k \<times> 'v) list"

text \<open>
  \<open>sarama.TopicDetail\<close>, the cluster's descriptor of one topic. Only the three fields
  that the program reads or writes are kept; a \<open>*string\<close> is a \<open>string option\<close>,
  \<open>None\<close> being the null pointer. The program only ranges over \<open>ConfigEntries\<close>, so
  its nil map and its empty map are both the empty list.
\<close>

record TopicDetail =
  NumPartitions :: int32
  DetailReplicationFactor :: int16
  ConfigEntries :: "(string, string option) gomap"

text \<open>\<open>type Topic struct\<close> (lines 15-20).\<close>

record Topic =
  Name :: string
  Partitions :: int32
  ReplicationFactor :: int16
  Configs :: "(string, string) gomap option"

text \<open>\<open>type ExportFile struct\<close> (lines 23-27).\<close>

record ExportFile =
  KafkaVersion :: string
  ExportTime :: string
  Topics :: "Topic list option"

section \<open>The export path\<close>

text \<open>
  \<open>configs[k] = v\<close> on a non-nil map: the key's value is replaced where the key is
  present and the entry is added otherwise.
\<close>

definition map_assign :: "'k \<Rightarrow> 'v \<Rightarrow> ('k, 'v) gomap \<Rightarrow> ('k, 'v) gomap" where
  "map_assign k v m = AList.update k v m"

text \<open>
  Lines 57-64: \<open>configs := make(map[string]string)\<close>, then the loop over
  \<open>detail.ConfigEntries\<close> that copies a value and stores the empty string for a null
  pointer.
\<close>

fun convert_configs ::
  "(string, string option) gomap \<Rightarrow> (string, string) gomap \<Rightarrow> (string, string) gomap" where
  "convert_configs [] configs = configs"
| "convert_configs ((k, v) # rest) configs =
     (case v of
        Some s \<Rightarrow> convert_configs rest (map_assign k s configs)
      | None \<Rightarrow> convert_configs rest (map_assign k [] configs))"

text \<open>\<open>append\<close> on a slice that may be nil.\<close>

definition append_slice :: "'a list option \<Rightarrow> 'a \<Rightarrow> 'a list option" where
  "append_slice s x = (case s of None \<Rightarrow> Some [x] | Some xs \<Rightarrow> Some (xs @ [x]))"

text \<open>Lines 56-71: the \<open>Topic\<close> that the loop body builds for one enumerated topic.\<close>

definition make_Topic :: "string \<Rightarrow> TopicDetail \<Rightarrow> Topic" where
  "make_Topic name detail =
     \<lparr>Name = name,
      Partitions = NumPartitions detail,
      ReplicationFactor = DetailReplicationFactor detail,
      Configs = Some (convert_configs (ConfigEntries detail) [])\<rparr>"

text \<open>
  Lines 50-72: the loop over the enumerated topics. \<open>name[:2] == "__"\<close> is guarded by
  \<open>len(name) >= 2\<close>, so the slice expression never panics.
\<close>

fun export_loop ::
  "bool \<Rightarrow> (string, TopicDetail) gomap \<Rightarrow> Topic list option \<Rightarrow> Topic list option" where
  "export_loop excludeInternal [] result = result"
| "export_loop excludeInternal ((name, detail) # rest) result =
     (if excludeInternal \<and> length name \<ge> 2 \<and> take 2 name = ''__''
      then export_loop excludeInternal rest result
      else export_loop excludeInternal rest
             (append_slice result (make_Topic name detail)))"

text \<open>
  \<open>sort.Slice\<close> is the Go library's sort: it returns a permutation of the slice that is
  ordered by the given \<open>less\<close> and it is not stable. It is modelled by insertion sort,
  which is what the library runs on slices of at most twelve elements; lemma
  \<open>sort_Slice_unique\<close> below shows that on names without duplicates every sorting
  procedure returns the same slice.
\<close>

fun insert_less :: "('a \<Rightarrow> 'a \<Rightarrow> bool) \<Rightarrow> 'a \<Rightarrow> 'a list \<Rightarrow> 'a list" where
  "insert_less lt x [] = [x]"
| "insert_less lt x (y # ys) =
     (if lt x y then x # y # ys else y # insert_less lt x ys)"

fun sort_Slice :: "('a \<Rightarrow> 'a \<Rightarrow> bool) \<Rightarrow> 'a list \<Rightarrow> 'a list" where
  "sort_Slice lt [] = []"
| "sort_Slice lt (x # xs) = insert_less lt x (sort_Slice lt xs)"

text \<open>Lines 74-76; sorting a nil slice leaves it nil.\<close>

definition sort_topics :: "Topic list option \<Rightarrow> Topic list option" where
  "sort_topics result = map_option (sort_Slice (\<lambda>a b. Name a < Name b)) result"

text \<open>
  Lines 50-82: the document that one export builds from the enumerated topics;
  \<open>now\<close> is \<open>time.Now().Format(time.RFC3339)\<close>.
\<close>

definition export_file :: "bool \<Rightarrow> string \<Rightarrow> (string, TopicDetail) gomap \<Rightarrow> ExportFile" where
  "export_file excludeInternal now topics =
     \<lparr>KafkaVersion = ''2.4.0'',
      ExportTime = now,
      Topics = sort_topics (export_loop excludeInternal topics None)\<rparr>"

text \<open>The elements of a slice that may be nil (what a \<open>range\<close> loop over it visits).\<close>

definition elems :: "'a list option \<Rightarrow> 'a list" where
  "elems s = (case s of None \<Rightarrow> [] | Some xs \<Rightarrow> xs)"

section \<open>Errors\<close>

text \<open>
  The program only tests an error against \<open>nil\<close> and hands it on; the constructors
  name the errors that its collaborators report.
\<close>

datatype error =
    ErrTopicAlreadyExists
  | ErrInvalidPartitions
  | ErrTopicAuthorizationFailed
  | ErrOutOfBrokers
  | ErrNotExist
  | ErrPermission
  | ErrSyntax
  | ErrUnmarshalType
  | ErrUnsupportedType
  | ErrUnsupportedValue

section \<open>The snapshot codec: \<open>encoding/json\<close> on the two struct types\<close>

text \<open>
  \<open>encoding/json\<close> is the Go library's; the repository fixes the two struct types and
  their field tags (lines 14-27). The library is modelled in two layers. The value layer,
  defined here, is the library's documented mapping between Go values and JSON values:
  which Go values it refuses, the member name of each struct field, \<open>omitempty\<close>, map
  keys in sorted order, and what each JSON value does to the Go variable it is decoded
  into. The text layer (printing a JSON value with indentation and escapes, parsing a
  text) is not modelled: it is a pair of functions that the environment supplies.
\<close>

datatype json =
    JNull
  | JBool bool
  | JNumber int
  | JFraction string
  | JString string
  | JArray "json list"
  | JObject "(string \<times> json) list"

text \<open>
  A Go value as \<open>json.Marshal\<close> sees it by reflection. A struct field carries its
  member name and whether its tag says \<open>omitempty\<close>. Channels, functions and complex
  numbers are the values of unsupported type; a floating-point number that is not
  finite is the unsupported value.
\<close>

datatype goval =
    GoString string
  | GoInt int
  | GoBool bool
  | GoFloatNotFinite
  | GoNilSlice
  | GoSlice "goval list"
  | GoNilMap
  | GoMap "(string \<times> goval) list"
  | GoStruct "(string \<times> bool \<times> goval) list"
  | GoChan
  | GoFunc
  | GoComplex

text \<open>The values that \<open>omitempty\<close> leaves out.\<close>

fun is_empty_value :: "goval \<Rightarrow> bool" where
  "is_empty_value (GoString s) = (s = [])"
| "is_empty_value (GoInt i) = (i = 0)"
| "is_empty_value (GoBool b) = (\<not> b)"
| "is_empty_value GoNilSlice = True"
| "is_empty_value (GoSlice xs) = (xs = [])"
| "is_empty_value GoNilMap = True"
| "is_empty_value (GoMap m) = (m = [])"
| "is_empty_value _ = False"

text \<open>
  \<open>json.Marshal\<close> on values: the first unsupported value met stops the encoding with
  an error. Map entries are written in the order of their keys.
\<close>

fun Marshal :: "goval \<Rightarrow> error + json"
  and marshal_elems :: "goval list \<Rightarrow> error + json list"
  and marshal_entries :: "(string \<times> goval) list \<Rightarrow> error + (string \<times> json) list"
  and marshal_fields :: "(string \<times> bool \<times> goval) list \<Rightarrow> error + (string \<times> json) list"
where
  "Marshal (GoString s) = Inr (JString s)"
| "Marshal (GoInt i) = Inr (JNumber i)"
| "Marshal (GoBool b) = Inr (JBool b)"
| "Marshal GoFloatNotFinite = Inl ErrUnsupportedValue"
| "Marshal GoNilSlice = Inr JNull"
| "Marshal (GoSlice xs) =
     (case marshal_elems xs of Inl e \<Rightarrow> Inl e | Inr js \<Rightarrow> Inr (JArray js))"
| "Marshal GoNilMap = Inr JNull"
| "Marshal (GoMap m) =
     (case marshal_entries m of
        Inl e \<Rightarrow> Inl e
      | Inr kvs \<Rightarrow> Inr (JObject (sort_key fst kvs)))"
| "Marshal (GoStruct fs) =
     (case marshal_fields fs of Inl e \<Rightarrow> Inl e | Inr kvs \<Rightarrow> Inr (JObject kvs))"
| "Marshal GoChan = Inl ErrUnsupportedType"
| "Marshal GoFunc = Inl ErrUnsupportedType"
| "Marshal GoComplex = Inl ErrUnsupportedType"
| "marshal_elems [] = Inr []"
| "marshal_elems (x # xs) =
     (case Marshal x of
        Inl e \<Rightarrow> Inl e
      | Inr j \<Rightarrow> (case marshal_elems xs of Inl e \<Rightarrow> Inl e | Inr js \<Rightarrow> Inr (j # js)))"
| "marshal_entries [] = Inr []"
| "marshal_entries ((k, x) # m) =
     (case Marshal x of
        Inl e \<Rightarrow> Inl e
      | Inr j \<Rightarrow>
          (case marshal_entries m of Inl e \<Rightarrow> Inl e | Inr kvs \<Rightarrow> Inr ((k, j) # kvs)))"
| "marshal_fields [] = Inr []"
| "marshal_fields ((tag, omitempty, x) # fs) =
     (if omitempty \<and> is_empty_value x then marshal_fields fs
      else
        (case Marshal x of
           Inl e \<Rightarrow> Inl e
         | Inr j \<Rightarrow>
             (case marshal_fields fs of Inl e \<Rightarrow> Inl e | Inr kvs \<Rightarrow> Inr ((tag, j) # kvs))))"

text \<open>
  The two struct types as \<open>json.Marshal\<close> sees them (lines 15-27): the member names
  are the tags, \<open>configs\<close> alone is \<open>omitempty\<close>, and the two integer fields are
  signed.
\<close>

definition reflect_Topic :: "Topic \<Rightarrow> goval" where
  "reflect_Topic t =
     GoStruct
       [(''name'', False, GoString (Name t)),
        (''partitions'', False, GoInt (sint (Partitions t))),
        (''replication_factor'', False, GoInt (sint (ReplicationFactor t))),
        (''configs'', True,
           (case Configs t of
              None \<Rightarrow> GoNilMap
            | Some m \<Rightarrow> GoMap (map (\<lambda>(k, v). (k, GoString v)) m)))]"

definition reflect_ExportFile :: "ExportFile \<Rightarrow> goval" where
  "reflect_ExportFile f =
     GoStruct
       [(''kafka_version'', False, GoString (KafkaVersion f)),
        (''export_time'', False, GoString (ExportTime f)),
        (''topics'', False,
           (case Topics f of
              None \<Rightarrow> GoNilSlice
            | Some ts \<Rightarrow> GoSlice (map reflect_Topic ts)))]"

text \<open>
  \<open>json.Unmarshal\<close> on values, into a variable of each of the types involved; the
  second argument is the variable's value before the call.
  \<^item> A JSON string sets a string, a JSON integer that fits sets an integer; \<open>null\<close>
    leaves both as they are; any other JSON value is a type error.
  \<^item> \<open>null\<close> sets a map or a slice to nil. A JSON object is stored into a map entry by
    entry, the map being allocated when it is nil. A JSON array becomes a slice of the
    decoded elements.
  \<^item> A JSON object sets the struct fields that its members name, in the members' order;
    a member that names no field is ignored. A member names a field when it equals the
    field's tag, also up to the case of ASCII letters.
  A type error makes the call return an error, which is all that the program looks at
  (lines 102-104). Two details of the library are left out, and they only show on a
  document that spells a member unlike its tag or repeats the member \<open>topics\<close>:
  the library also matches the two letters outside ASCII whose lower case is \<open>k\<close> or
  \<open>s\<close>, and a second array for \<open>topics\<close> is decoded into the elements that the first
  one left.
\<close>

definition ascii_lower :: "char \<Rightarrow> char" where
  "ascii_lower c =
     (if CHR ''A'' \<le> c \<and> c \<le> CHR ''Z'' then char_of (of_char c + (32::nat)) else c)"

definition field_matches :: "string \<Rightarrow> string \<Rightarrow> bool" where
  "field_matches tag k = (k = tag \<or> map ascii_lower k = map ascii_lower tag)"

definition decode_string :: "json \<Rightarrow> string \<Rightarrow> error + string" where
  "decode_string j cur =
     (case j of JString s \<Rightarrow> Inr s | JNull \<Rightarrow> Inr cur | _ \<Rightarrow> Inl ErrUnmarshalType)"

definition decode_int :: "json \<Rightarrow> 'a::len word \<Rightarrow> error + 'a word" where
  "decode_int j cur =
     (case j of
        JNumber n \<Rightarrow>
          (if - (2 ^ (LENGTH('a) - 1)) \<le> n \<and> n < 2 ^ (LENGTH('a) - 1)
           then Inr (word_of_int n) else Inl ErrUnmarshalType)
      | JNull \<Rightarrow> Inr cur
      | _ \<Rightarrow> Inl ErrUnmarshalType)"

fun decode_entries ::
  "(string \<times> json) list \<Rightarrow> (string, string) gomap \<Rightarrow> error + (string, string) gomap" where
  "decode_entries [] m = Inr m"
| "decode_entries ((k, j) # kvs) m =
     (case decode_string j [] of
        Inl e \<Rightarrow> Inl e
      | Inr s \<Rightarrow> decode_entries kvs (map_assign k s m))"

definition decode_configs ::
  "json \<Rightarrow> (string, string) gomap option \<Rightarrow> error + (string, string) gomap option" where
  "decode_configs j cur =
     (case j of
        JNull \<Rightarrow> Inr None
      | JObject kvs \<Rightarrow>
          (case decode_entries kvs (case cur of None \<Rightarrow> [] | Some m \<Rightarrow> m) of
             Inl e \<Rightarrow> Inl e
           | Inr m \<Rightarrow> Inr (Some m))
      | _ \<Rightarrow> Inl ErrUnmarshalType)"

fun decode_Topic_members :: "(string \<times> json) list \<Rightarrow> Topic \<Rightarrow> error + Topic" where
  "decode_Topic_members [] t = Inr t"
| "decode_Topic_members ((k, j) # kvs) t =
     (if field_matches ''name'' k then
        (case decode_string j (Name t) of
           Inl e \<Rightarrow> Inl e
         | Inr s \<Rightarrow> decode_Topic_members kvs (t\<lparr>Name := s\<rparr>))
      else if field_matches ''partitions'' k then
        (case decode_int j (Partitions t) of
           Inl e \<Rightarrow> Inl e
         | Inr n \<Rightarrow> decode_Topic_members kvs (t\<lparr>Partitions := n\<rparr>))
      else if field_matches ''replication_factor'' k then
        (case decode_int j (ReplicationFactor t) of
           Inl e \<Rightarrow> Inl e
         | Inr n \<Rightarrow> decode_Topic_members kvs (t\<lparr>ReplicationFactor := n\<rparr>))
      else if field_matches ''configs'' k then
        (case decode_configs j (Configs t) of
           Inl e \<Rightarrow> Inl e
         | Inr c \<Rightarrow> decode_Topic_members kvs (t\<lparr>Configs := c\<rparr>))
      else decode_Topic_members kvs t)"

definition zero_Topic :: Topic where
  "zero_Topic = \<lparr>Name = [], Partitions = 0, ReplicationFactor = 0, Configs = None\<rparr>"

definition decode_Topic :: "json \<Rightarrow> Topic \<Rightarrow> error + Topic" where
  "decode_Topic j cur =
     (case j of
        JObject kvs \<Rightarrow> decode_Topic_members kvs cur
      | JNull \<Rightarrow> Inr cur
      | _ \<Rightarrow> Inl ErrUnmarshalType)"

fun decode_elems :: "json list \<Rightarrow> error + Topic list" where
  "decode_elems [] = Inr []"
| "decode_elems (j # js) =
     (case decode_Topic j zero_Topic of
        Inl e \<Rightarrow> Inl e
      | Inr t \<Rightarrow> (case decode_elems js of Inl e \<Rightarrow> Inl e | Inr ts \<Rightarrow> Inr (t # ts)))"

definition decode_topics :: "json \<Rightarrow> error + Topic list option" where
  "decode_topics j =
     (case j of
        JNull \<Rightarrow> Inr None
      | JArray js \<Rightarrow> (case decode_elems js of Inl e \<Rightarrow> Inl e | Inr ts \<Rightarrow> Inr (Some ts))
      | _ \<Rightarrow> Inl ErrUnmarshalType)"

fun decode_ExportFile_members :: "(string \<times> json) list \<Rightarrow> ExportFile \<Rightarrow> error + ExportFile" where
  "decode_ExportFile_members [] f = Inr f"
| "decode_ExportFile_members ((k, j) # kvs) f =
     (if field_matches ''kafka_version'' k then
        (case decode_string j (KafkaVersion f) of
           Inl e \<Rightarrow> Inl e
         | Inr s \<Rightarrow> decode_ExportFile_members kvs (f\<lparr>KafkaVersion := s\<rparr>))
      else if field_matches ''export_time'' k then
        (case decode_string j (ExportTime f) of
           Inl e \<Rightarrow> Inl e
         | Inr s \<Rightarrow> decode_ExportFile_members kvs (f\<lparr>ExportTime := s\<rparr>))
      else if field_matches ''topics'' k then
        (case decode_topics j of
           Inl e \<Rightarrow> Inl e
         | Inr ts \<Rightarrow> decode_ExportFile_members kvs (f\<lparr>Topics := ts\<rparr>))
      else decode_ExportFile_members kvs f)"

definition zero_ExportFile :: ExportFile where
  "zero_ExportFile = \<lparr>KafkaVersion = [], ExportTime = [], Topics = None\<rparr>"

definition decode_ExportFile :: "json \<Rightarrow> ExportFile \<Rightarrow> error + ExportFile" where
  "decode_ExportFile j cur =
     (case j of
        JObject kvs \<Rightarrow> decode_ExportFile_members kvs cur
      | JNull \<Rightarrow> Inr cur
      | _ \<Rightarrow> Inl ErrUnmarshalType)"

text \<open>
  The two calls of the program. \<open>json.MarshalIndent(file, "", "  ")\<close> (line 84) encodes
  the document and prints the JSON value with \<open>render\<close>; on an error its bytes are nil.
  \<open>json.Unmarshal(data, &file)\<close> (lines 101-102) parses the text with \<open>parse\<close>, which
  fails on a text that is not JSON, and decodes the value into the fresh variable
  \<open>file\<close>.
\<close>

definition MarshalIndent :: "(json \<Rightarrow> string) \<Rightarrow> ExportFile \<Rightarrow> string \<times> error option" where
  "MarshalIndent render f =
     (case Marshal (reflect_ExportFile f) of
        Inl e \<Rightarrow> ([], Some e)
      | Inr j \<Rightarrow> (render j, None))"

definition Unmarshal :: "(string \<Rightarrow> error + json) \<Rightarrow> string \<Rightarrow> error + ExportFile" where
  "Unmarshal parse data =
     (case parse data of
        Inl e \<Rightarrow> Inl e
      | Inr j \<Rightarrow> decode_ExportFile j zero_ExportFile)"

section \<open>The collaborators and what the program does to them\<close>

text \<open>
  What the program prints: the usage text of lines 138-141, the usage of a flag set
  (\<open>fs.Usage()\<close>), the line of the \<open>default\<close> case (line 184), the two closing lines
  (163 and 181) and the two lines of the import loop (123 and 129).
\<close>

datatype message =
    Usage
  | FlagUsage
  | SupportedCommands
  | ExportDone string
  | ImportDone
  | SkippedExisting string
  | Created string

text \<open>
  One run is observed as the sequence of its calls to the cluster's administrative
  client, its file operations and its prints, in the order in which it makes them.
\<close>

datatype event =
    EvNewClusterAdmin string
  | EvListTopics
  | EvCreateTopic string TopicDetail
  | EvClose
  | EvReadFile string
  | EvWriteFile string string
  | EvPrint message
  | EvPanic error

text \<open>The values of the three flags of one command (lines 149-151 and 167-169).\<close>

record flags =
  bootstrap :: string
  path :: string
  switch :: bool

text \<open>
  The environment of one run: the cluster behind \<open>sarama.ClusterAdmin\<close>, whose state
  has the type \<open>'s\<close>, the file system, the text layer of \<open>encoding/json\<close>, the clock
  and the \<open>flag\<close> package.
  \<^item> \<open>NewClusterAdmin\<close> says whether a session to the given broker can be opened;
  \<^item> \<open>ListTopics\<close> returns the topics in the order in which the program's \<open>range\<close>
    loop will visit the returned map;
  \<^item> \<open>CreateTopic\<close> returns the error, if any, and the cluster's next state;
  \<^item> \<open>FlagParse\<close> takes the name of the flag set, the default values and the arguments;
    a flag set made with \<open>flag.ExitOnError\<close> ends the process on a bad argument, which
    is the result \<open>Inl\<close> of the exit status.
\<close>

record 's env =
  NewClusterAdmin :: "string \<Rightarrow> error option"
  ListTopics :: "'s \<Rightarrow> error + (string, TopicDetail) gomap"
  CreateTopic :: "'s \<Rightarrow> string \<Rightarrow> TopicDetail \<Rightarrow> error option \<times> 's"
  ReadFile :: "string \<Rightarrow> error + string"
  WriteFile :: "string \<Rightarrow> string \<Rightarrow> error option"
  Render :: "json \<Rightarrow> string"
  Parse :: "string \<Rightarrow> error + json"
  Now :: string
  FlagParse :: "string \<Rightarrow> flags \<Rightarrow> string list \<Rightarrow> int + flags"

text \<open>\<open>newAdmin\<close> (lines 30-35).\<close>

definition newAdmin :: "'s env \<Rightarrow> string \<Rightarrow> error option" where
  "newAdmin env broker = NewClusterAdmin env broker"

text \<open>
  \<open>exportTopics\<close> (lines 38-86): the returned error and the events of the run. The
  deferred \<open>admin.Close()\<close> runs last on every path after the session was opened. The
  error of \<open>json.MarshalIndent\<close> is discarded (line 84) and whatever bytes it returned
  are written.
\<close>

definition exportTopics :: "'s env \<Rightarrow> 's \<Rightarrow> string \<Rightarrow> string \<Rightarrow> bool \<Rightarrow> error option \<times> event list" where
  "exportTopics env s broker out excludeInternal =
     (case newAdmin env broker of
        Some err \<Rightarrow> (Some err, [EvNewClusterAdmin broker])
      | None \<Rightarrow>
          (case ListTopics env s of
             Inl err \<Rightarrow> (Some err, [EvNewClusterAdmin broker, EvListTopics, EvClose])
           | Inr topics \<Rightarrow>
               (let file = export_file excludeInternal (Now env) topics;
                    data = fst (MarshalIndent (Render env) file)
                in (WriteFile env out data,
                    [EvNewClusterAdmin broker, EvListTopics, EvWriteFile out data, EvClose]))))"

text \<open>Lines 108-112: \<open>cfg := make(map[string]*string)\<close> and the loop over \<open>t.Configs\<close>.\<close>

fun import_configs ::
  "(string, string) gomap \<Rightarrow> (string, string option) gomap \<Rightarrow> (string, string option) gomap" where
  "import_configs [] cfg = cfg"
| "import_configs ((k, v) # rest) cfg = import_configs rest (map_assign k (Some v) cfg)"

text \<open>Lines 114-118: the creation request for one topic of the document.\<close>

definition topic_detail :: "Topic \<Rightarrow> TopicDetail" where
  "topic_detail t =
     \<lparr>NumPartitions = Partitions t,
      DetailReplicationFactor = ReplicationFactor t,
      ConfigEntries = import_configs (case Configs t of None \<Rightarrow> [] | Some m \<Rightarrow> m) []\<rparr>"

text \<open>
  Lines 106-130: the loop over \<open>file.Topics\<close>. It returns the error with which the
  loop left the function (\<open>None\<close> when it ran to its end), the cluster's state after the
  last call and the events of the loop.
\<close>

fun import_loop :: "'s env \<Rightarrow> bool \<Rightarrow> Topic list \<Rightarrow> 's \<Rightarrow> error option \<times> 's \<times> event list" where
  "import_loop env ifNotExists [] s = (None, s, [])"
| "import_loop env ifNotExists (t # ts) s =
     (case CreateTopic env s (Name t) (topic_detail t) of
        (Some err, s') \<Rightarrow>
          (if ifNotExists then
             (case import_loop env ifNotExists ts s' of
                (r, s'', evs) \<Rightarrow>
                  (r, s'',
                   EvCreateTopic (Name t) (topic_detail t) # EvPrint (SkippedExisting (Name t)) # evs))
           else (Some err, s', [EvCreateTopic (Name t) (topic_detail t)]))
      | (None, s') \<Rightarrow>
          (case import_loop env ifNotExists ts s' of
             (r, s'', evs) \<Rightarrow>
               (r, s'', EvCreateTopic (Name t) (topic_detail t) # EvPrint (Created (Name t)) # evs)))"

text \<open>\<open>importTopics\<close> (lines 89-133).\<close>

definition importTopics ::
  "'s env \<Rightarrow> 's \<Rightarrow> string \<Rightarrow> string \<Rightarrow> bool \<Rightarrow> error option \<times> 's \<times> event list" where
  "importTopics env s broker inp ifNotExists =
     (case newAdmin env broker of
        Some err \<Rightarrow> (Some err, s, [EvNewClusterAdmin broker])
      | None \<Rightarrow>
          (case ReadFile env inp of
             Inl err \<Rightarrow> (Some err, s, [EvNewClusterAdmin broker, EvReadFile inp, EvClose])
           | Inr data \<Rightarrow>
               (case Unmarshal (Parse env) data of
                  Inl err \<Rightarrow> (Some err, s, [EvNewClusterAdmin broker, EvReadFile inp, EvClose])
                | Inr file \<Rightarrow>
                    (case import_loop env ifNotExists (elems (Topics file)) s of
                       (r, s', evs) \<Rightarrow>
                         (r, s', [EvNewClusterAdmin broker, EvReadFile inp] @ evs @ [EvClose])))))"

text \<open>
  \<open>main\<close> (lines 136-185) on the argument vector \<open>os.Args\<close>: the exit status of the
  process, the cluster's state and the events. \<open>os.Exit(1)\<close> ends the process with
  status 1, a panic that nothing recovers ends it with status 2, and returning from
  \<open>main\<close> ends it with status 0.
\<close>

definition main :: "'s env \<Rightarrow> 's \<Rightarrow> string list \<Rightarrow> int \<times> 's \<times> event list" where
  "main env s args =
     (if length args < 2 then (1, s, [EvPrint Usage])
      else if args ! 1 = ''export'' then
        (case FlagParse env ''export''
                \<lparr>bootstrap = [], path = ''topics.json'', switch = True\<rparr> (drop 2 args) of
           Inl status \<Rightarrow> (status, s, [])
         | Inr fl \<Rightarrow>
             (if bootstrap fl = [] then (1, s, [EvPrint FlagUsage])
              else
                (case exportTopics env s (bootstrap fl) (path fl) (switch fl) of
                   (Some err, evs) \<Rightarrow> (2, s, evs @ [EvPanic err])
                 | (None, evs) \<Rightarrow> (0, s, evs @ [EvPrint (ExportDone (path fl))]))))
      else if args ! 1 = ''import'' then
        (case FlagParse env ''import''
                \<lparr>bootstrap = [], path = ''topics.json'', switch = True\<rparr> (drop 2 args) of
           Inl status \<Rightarrow> (status, s, [])
         | Inr fl \<Rightarrow>
             (if bootstrap fl = [] then (1, s, [EvPrint FlagUsage])
              else
                (case importTopics env s (bootstrap fl) (path fl) (switch fl) of
                   (Some err, s', evs) \<Rightarrow> (2, s', evs @ [EvPanic err])
                 | (None, s', evs) \<Rightarrow> (0, s', evs @ [EvPrint ImportDone]))))
      else (0, s, [EvPrint SupportedCommands]))"

section \<open>Notions used to state the properties\<close>

text \<open>
  The keys of a Go map are pairwise distinct; an association list that stands for one is
  well formed when its keys are. Two well-formed lists stand for the same map when they
  hold the same entries, in whatever order.
\<close>

definition wf_gomap :: "('k, 'v) gomap \<Rightarrow> bool" where
  "wf_gomap m = distinct (map fst m)"

definition same_gomap :: "('k, 'v) gomap \<Rightarrow> ('k, 'v) gomap \<Rightarrow> bool" where
  "same_gomap m m' = (set m = set m')"

text \<open>
  A string begins with a prefix; the topics of an enumeration that an export keeps are
  those whose name does not begin with the two underscores of internal topics, and all of
  them when internal topics are not excluded.
\<close>

definition begins_with :: "string \<Rightarrow> string \<Rightarrow> bool" where
  "begins_with p s = (take (length p) s = p)"

definition kept :: "bool \<Rightarrow> (string, TopicDetail) gomap \<Rightarrow> (string, TopicDetail) gomap" where
  "kept excludeInternal topics =
     filter (\<lambda>(n, d). \<not> (excludeInternal \<and> begins_with ''__'' n)) topics"

text \<open>
  The topics that \<open>ListTopics\<close> returns form a Go map whose descriptors hold Go maps.
  Two enumerations show the same cluster state when each name has the same partition
  count, the same replication factor and the same configuration entries in both.
\<close>

definition wf_cluster :: "(string, TopicDetail) gomap \<Rightarrow> bool" where
  "wf_cluster topics =
     (wf_gomap topics \<and> list_all (\<lambda>(n, d). wf_gomap (ConfigEntries d)) topics)"

definition same_detail :: "TopicDetail \<Rightarrow> TopicDetail \<Rightarrow> bool" where
  "same_detail d d' =
     (NumPartitions d = NumPartitions d' \<and>
      DetailReplicationFactor d = DetailReplicationFactor d' \<and>
      same_gomap (ConfigEntries d) (ConfigEntries d'))"

definition covers :: "(string, TopicDetail) gomap \<Rightarrow> (string, TopicDetail) gomap \<Rightarrow> bool" where
  "covers topics topics' =
     list_all (\<lambda>(n, d). case map_of topics' n of None \<Rightarrow> False | Some d' \<Rightarrow> same_detail d d')
       topics"

definition same_cluster :: "(string, TopicDetail) gomap \<Rightarrow> (string, TopicDetail) gomap \<Rightarrow> bool" where
  "same_cluster topics topics' = (covers topics topics' \<and> covers topics' topics)"




text \<open>
  The JSON value of a topic and of a document, written out: what \<open>Marshal\<close> is shown
  to return on \<open>reflect_Topic\<close> and \<open>reflect_ExportFile\<close>.
\<close>

definition json_of_Topic :: "Topic \<Rightarrow> json" where
  "json_of_Topic t =
     JObject
       ([(''name'', JString (Name t)),
         (''partitions'', JNumber (sint (Partitions t))),
         (''replication_factor'', JNumber (sint (ReplicationFactor t)))] @
        (case Configs t of
           None \<Rightarrow> []
         | Some m \<Rightarrow>
             (if m = [] then []
              else [(''configs'', JObject (sort_key fst (map (\<lambda>(k, v). (k, JString v)) m)))])))"

definition json_of_ExportFile :: "ExportFile \<Rightarrow> json" where
  "json_of_ExportFile f =
     JObject
       [(''kafka_version'', JString (KafkaVersion f)),
        (''export_time'', JString (ExportTime f)),
        (''topics'',
           (case Topics f of None \<Rightarrow> JNull | Some ts \<Rightarrow> JArray (map json_of_Topic ts)))]"

text \<open>
  The value that the export stores for a configuration entry of the cluster, and the
  topic that reading a written topic back gives: its configs are nil when it had no
  entry, and otherwise hold its entries, which the codec wrote in the order of their
  keys.
\<close>

definition null_to_empty :: "string option \<Rightarrow> string" where
  "null_to_empty v = (case v of None \<Rightarrow> [] | Some s \<Rightarrow> s)"


text \<open>The names of the topics whose creation a run requested, in the order of the requests.\<close>

fun attempted :: "event list \<Rightarrow> string list" where
  "attempted [] = []"
| "attempted (EvCreateTopic n d # evs) = n # attempted evs"
| "attempted (_ # evs) = attempted evs"

section \<open>A small cluster and environment for concrete runs\<close>

text \<open>
  A cluster whose state is the list of its topics. It refuses a name that it already
  has with \<open>ErrTopicAlreadyExists\<close> and a request for fewer than one partition with
  \<open>ErrInvalidPartitions\<close>, and it adds any other topic.
\<close>

definition demo_create ::
  "(string, TopicDetail) gomap \<Rightarrow> string \<Rightarrow> TopicDetail
     \<Rightarrow> error option \<times> (string, TopicDetail) gomap" where
  "demo_create s name detail =
     (if name \<in> set (map fst s) then (Some ErrTopicAlreadyExists, s)
      else if sint (NumPartitions detail) < 1 then (Some ErrInvalidPartitions, s)
      else (None, s @ [(name, detail)]))"

text \<open>
  An environment over that cluster: the files are a table from paths to texts, and the
  text layer of the codec is a table of texts with the JSON values that they denote.
\<close>

definition demo_env ::
  "(string \<times> string) list \<Rightarrow> (string \<times> json) list \<Rightarrow> (string, TopicDetail) gomap env" where
  "demo_env files texts =
     \<lparr>NewClusterAdmin = (\<lambda>broker. if broker = [] then Some ErrOutOfBrokers else None),
      ListTopics = Inr,
      CreateTopic = demo_create,
      ReadFile = (\<lambda>p. case map_of files p of None \<Rightarrow> Inl ErrNotExist | Some d \<Rightarrow> Inr d),
      WriteFile = (\<lambda>p d. None),
      Render = (\<lambda>j. case find (\<lambda>(d, j'). j' = j) texts of None \<Rightarrow> [] | Some (d, j') \<Rightarrow> d),
      Parse = (\<lambda>d. case map_of texts d of None \<Rightarrow> Inl ErrSyntax | Some j \<Rightarrow> Inr j),
      Now = ''2024-01-01T00:00:00Z'',
      FlagParse =
        (\<lambda>name fl args.
           case args of
             [] \<Rightarrow> Inr fl
           | [a, b] \<Rightarrow> if a = ''--bootstrap'' then Inr (fl\<lparr>bootstrap := b\<rparr>) else Inl 2
           | _ \<Rightarrow> Inl 2)\<rparr>"

definition demo_detail :: "int32 \<Rightarrow> (string, string option) gomap \<Rightarrow> TopicDetail" where
  "demo_detail n cfg = \<lparr>NumPartitions = n, DetailReplicationFactor = 1, ConfigEntries = cfg\<rparr>"

definition demo_topic :: "string \<Rightarrow> int32 \<Rightarrow> Topic" where
  "demo_topic n p = \<lparr>Name = n, Partitions = p, ReplicationFactor = 1, Configs = None\<rparr>"

section \<open>The library sort\<close>

lemma set_insert_less: "set (insert_less lt x xs) = insert x (set xs)"
  by (induction xs) auto

lemma set_sort_Slice: "set (sort_Slice lt xs) = set xs"
  by (induction xs) (simp_all add: set_insert_less)

lemma sorted_insert_less:
  fixes f :: "'a \<Rightarrow> 'b::linorder"
  shows "sorted (map f xs) \<Longrightarrow> sorted (map f (insert_less (\<lambda>a b. f a < f b) x xs))"
  by (induction xs) (auto simp: set_insert_less)

lemma sorted_sort_Slice:
  fixes f :: "'a \<Rightarrow> 'b::linorder"
  shows "sorted (map f (sort_Slice (\<lambda>a b. f a < f b) xs))"
  by (induction xs) (simp_all add: sorted_insert_less)

lemma distinct_insert_less:
  "distinct (map f (insert_less lt x xs)) = (f x \<notin> f ` set xs \<and> distinct (map f xs))"
  by (induction xs) (auto simp: set_insert_less)

lemma distinct_sort_Slice: "distinct (map f (sort_Slice lt xs)) = distinct (map f xs)"
  by (induction xs) (simp_all add: distinct_insert_less set_sort_Slice)

lemma strict_sorted_sort_Slice:
  fixes f :: "'a \<Rightarrow> 'b::linorder"
  assumes "distinct (map f xs)"
  shows "sorted_wrt (<) (map f (sort_Slice (\<lambda>a b. f a < f b) xs))"
  using assms by (simp add: strict_sorted_iff sorted_sort_Slice distinct_sort_Slice)

lemma strict_sorted_key_unique:
  fixes f :: "'a \<Rightarrow> 'b::linorder"
  assumes "sorted_wrt (<) (map f xs)" and "sorted_wrt (<) (map f ys)" and "set xs = set ys"
  shows "xs = ys"
proof -
  have "map f xs = map f ys"
    using assms by (intro sorted_distinct_set_unique) (simp_all add: strict_sorted_iff)
  moreover have "inj_on f (set xs \<union> set ys)"
    using assms(1,3) by (simp add: strict_sorted_iff distinct_map)
  ultimately show ?thesis by (simp add: inj_on_map_eq_map)
qed

lemma sort_Slice_unique:
  fixes f :: "'a \<Rightarrow> 'b::linorder"
  assumes "distinct (map f xs)"
    and "set ys = set xs" and "length ys = length xs"
    and "sorted_wrt (\<lambda>a b. \<not> f b < f a) ys"
  shows "ys = sort_Slice (\<lambda>a b. f a < f b) xs"
proof -
  have dx: "distinct xs" and inj: "inj_on f (set xs)"
    using assms(1) by (simp_all add: distinct_map)
  have "card (set ys) = length ys"
    using assms(2,3) dx by (simp add: distinct_card)
  then have "distinct ys" by (rule card_distinct)
  then have "distinct (map f ys)"
    using inj assms(2) by (simp add: distinct_map)
  moreover have "sorted (map f ys)"
    using assms(4) by (simp add: sorted_wrt_map not_less sorted_wrt_iff_nth_less sorted_iff_nth_mono_less)
  ultimately have "sorted_wrt (<) (map f ys)" by (simp add: strict_sorted_iff)
  then show ?thesis
    using strict_sorted_sort_Slice [OF assms(1)] assms(2)
    by (intro strict_sorted_key_unique [of f]) (simp_all add: set_sort_Slice)
qed

section \<open>What one export keeps\<close>

lemma begins_with_iff: "begins_with p s = (\<exists>rest. s = p @ rest)"
proof
  assume "begins_with p s"
  then have "s = p @ drop (length p) s"
    unfolding begins_with_def by (metis append_take_drop_id)
  then show "\<exists>rest. s = p @ rest" ..
next
  assume "\<exists>rest. s = p @ rest"
  then show "begins_with p s" by (auto simp: begins_with_def)
qed

lemma internal_test: "(length name \<ge> 2 \<and> take 2 name = ''__'') = begins_with ''__'' name"
proof -
  have "length name \<ge> 2" if "take 2 name = ''__''"
  proof -
    from that have "length (take 2 name) = 2" by simp
    then show ?thesis by simp
  qed
  then show ?thesis by (auto simp: begins_with_def numeral_2_eq_2)
qed

lemma elems_append_slice: "elems (append_slice r x) = elems r @ [x]"
  by (cases r) (simp_all add: elems_def append_slice_def)

lemma elems_export_loop:
  "elems (export_loop ex topics r) = elems r @ map (\<lambda>(n, d). make_Topic n d) (kept ex topics)"
proof (induction topics arbitrary: r)
  case Nil
  show ?case by (simp add: kept_def)
next
  case (Cons p topics)
  obtain n d where p: "p = (n, d)" by (cases p)
  have k: "kept ex ((n, d) # topics) =
      (if ex \<and> begins_with ''__'' n then kept ex topics else (n, d) # kept ex topics)"
    by (simp add: kept_def)
  show ?case
  proof (cases "ex \<and> begins_with ''__'' n")
    case True
    then show ?thesis
      unfolding p export_loop.simps internal_test k using Cons.IH [of r] by simp
  next
    case False
    then have "export_loop ex ((n, d) # topics) r =
        export_loop ex topics (append_slice r (make_Topic n d))"
      unfolding export_loop.simps internal_test by (rule if_not_P)
    moreover have "kept ex ((n, d) # topics) = (n, d) # kept ex topics"
      unfolding k using False by (rule if_not_P)
    ultimately show ?thesis
      unfolding p using Cons.IH [of "append_slice r (make_Topic n d)"]
      by (simp add: elems_append_slice)
  qed
qed

lemma elems_sort_topics:
  "elems (sort_topics r) = sort_Slice (\<lambda>a b. Name a < Name b) (elems r)"
  by (cases r) (simp_all add: sort_topics_def elems_def)

lemma elems_Topics_export_file:
  "elems (Topics (export_file ex now topics)) =
     sort_Slice (\<lambda>a b. Name a < Name b) (map (\<lambda>(n, d). make_Topic n d) (kept ex topics))"
proof -
  have "elems (export_loop ex topics None) = map (\<lambda>(n, d). make_Topic n d) (kept ex topics)"
    unfolding elems_export_loop by (simp add: elems_def)
  then show ?thesis by (simp add: export_file_def elems_sort_topics)
qed

lemma Name_make_Topic: "Name (make_Topic n d) = n"
  by (simp add: make_Topic_def)

lemma map_Name_make_Topic: "map Name (map (\<lambda>(n, d). make_Topic n d) xs) = map fst xs"
  by (induction xs) (auto simp: Name_make_Topic)

lemma wf_kept: "wf_gomap topics \<Longrightarrow> wf_gomap (kept ex topics)"
  by (simp add: wf_gomap_def kept_def distinct_map_filter)

lemma set_kept: "set (kept ex topics) = {(n, d). (n, d) \<in> set topics \<and> \<not> (ex \<and> begins_with ''__'' n)}"
  by (auto simp: kept_def)

lemma update_fresh: "k \<notin> fst ` set al \<Longrightarrow> AList.update k v al = al @ [(k, v)]"
  by (induction al) auto

lemma convert_configs_wf:
  "distinct (map fst acc @ map fst es) \<Longrightarrow>
   convert_configs es acc = acc @ map (\<lambda>(k, v). (k, null_to_empty v)) es"
proof (induction es arbitrary: acc)
  case Nil
  show ?case by simp
next
  case (Cons p es)
  obtain k v where p: "p = (k, v)" by (cases p)
  from Cons.prems have fresh: "k \<notin> fst ` set acc"
    by (auto simp: p)
  from Cons.prems have d: "distinct (map fst (acc @ [(k, null_to_empty v)]) @ map fst es)"
    by (auto simp: p)
  have "convert_configs (p # es) acc = convert_configs es (acc @ [(k, null_to_empty v)])"
    by (cases v) (simp_all add: p map_assign_def update_fresh [OF fresh] null_to_empty_def)
  also have "\<dots> = (acc @ [(k, null_to_empty v)]) @ map (\<lambda>(k, v). (k, null_to_empty v)) es"
    using d by (rule Cons.IH)
  finally show ?case by (simp add: p)
qed

lemma Configs_make_Topic:
  "wf_gomap (ConfigEntries d) \<Longrightarrow>
   Configs (make_Topic n d) = Some (map (\<lambda>(k, v). (k, null_to_empty v)) (ConfigEntries d))"
  using convert_configs_wf [of "[]" "ConfigEntries d"]
  by (simp add: make_Topic_def wf_gomap_def)

lemma map_of_normalized:
  "map_of (map (\<lambda>(k, v). (k, null_to_empty v)) es) k = map_option null_to_empty (map_of es k)"
  by (induction es) auto


lemma strict_sorted_export:
  assumes "wf_gomap topics"
  shows "sorted_wrt (<) (map Name (elems (Topics (export_file ex now topics))))"
proof -
  have "distinct (map Name (map (\<lambda>(n, d). make_Topic n d) (kept ex topics)))"
    using wf_kept [OF assms, of ex] unfolding map_Name_make_Topic wf_gomap_def .
  then show ?thesis
    unfolding elems_Topics_export_file by (rule strict_sorted_sort_Slice)
qed

lemma export_loop_None:
  "(export_loop ex ts r = None) = (r = None \<and> kept ex ts = [])"
proof (induction ts arbitrary: r)
  case Nil
  show ?case by (simp add: kept_def)
next
  case (Cons p ts)
  obtain n d where p: "p = (n, d)" by (cases p)
  show ?case
  proof (cases "ex \<and> begins_with ''__'' n")
    case True
    then show ?thesis
      unfolding p export_loop.simps internal_test using Cons.IH [of r] by (simp add: kept_def)
  next
    case False
    then have "export_loop ex ((n, d) # ts) r = export_loop ex ts (append_slice r (make_Topic n d))"
      unfolding export_loop.simps internal_test by (rule if_not_P)
    moreover have "kept ex ((n, d) # ts) \<noteq> []"
      using False by (simp add: kept_def)
    moreover have "append_slice r (make_Topic n d) \<noteq> None"
      by (cases r) (simp_all add: append_slice_def)
    ultimately show ?thesis
      unfolding p using Cons.IH [of "append_slice r (make_Topic n d)"] by simp
  qed
qed

lemma Topics_export_file_None:
  "(Topics (export_file ex now ts) = None) = (kept ex ts = [])"
  by (simp add: export_file_def sort_topics_def export_loop_None)

lemma wf_cluster_entries:
  "wf_cluster ts \<Longrightarrow> (n, d) \<in> set ts \<Longrightarrow> wf_gomap (ConfigEntries d)"
  by (auto simp: wf_cluster_def list_all_iff)

section \<open>The value layer of the codec on the document types\<close>

lemma marshal_entries_strings:
  "marshal_entries (map (\<lambda>(k, v). (k, GoString v)) m) = Inr (map (\<lambda>(k, v). (k, JString v)) m)"
  by (induction m) auto

lemma Marshal_reflect_Topic: "Marshal (reflect_Topic t) = Inr (json_of_Topic t)"
proof (cases "Configs t")
  case None
  then show ?thesis by (simp add: reflect_Topic_def json_of_Topic_def)
next
  case (Some m)
  then show ?thesis
    by (cases "m = []") (simp_all add: reflect_Topic_def json_of_Topic_def marshal_entries_strings)
qed

lemma marshal_elems_Topics:
  "marshal_elems (map reflect_Topic ts) = Inr (map json_of_Topic ts)"
  by (induction ts) (simp_all add: Marshal_reflect_Topic)

lemma Marshal_reflect_ExportFile:
  "Marshal (reflect_ExportFile f) = Inr (json_of_ExportFile f)"
  by (cases "Topics f")
    (simp_all add: reflect_ExportFile_def json_of_ExportFile_def marshal_elems_Topics)

lemma field_matches_tags [simp]:
  "field_matches ''name'' ''name''"
  "\<not> field_matches ''name'' ''partitions''"
  "\<not> field_matches ''name'' ''replication_factor''"
  "\<not> field_matches ''name'' ''configs''"
  "field_matches ''partitions'' ''partitions''"
  "\<not> field_matches ''partitions'' ''replication_factor''"
  "\<not> field_matches ''partitions'' ''configs''"
  "field_matches ''replication_factor'' ''replication_factor''"
  "\<not> field_matches ''replication_factor'' ''configs''"
  "field_matches ''configs'' ''configs''"
  "field_matches ''kafka_version'' ''kafka_version''"
  "\<not> field_matches ''kafka_version'' ''export_time''"
  "\<not> field_matches ''kafka_version'' ''topics''"
  "field_matches ''export_time'' ''export_time''"
  "\<not> field_matches ''export_time'' ''topics''"
  "field_matches ''topics'' ''topics''"
  by (simp_all add: field_matches_def ascii_lower_def)





lemma distinct_keys_sort_key:
  "distinct (map fst (sort_key fst xs)) = distinct (map fst xs)"
  by (induction xs) (simp_all add: distinct_insort_key)







lemma sort_key_unique:
  fixes xs ys :: "('k::linorder \<times> 'v) list"
  assumes "distinct (map fst xs)" and "distinct (map fst ys)" and "set xs = set ys"
  shows "sort_key fst xs = sort_key fst ys"
proof (rule strict_sorted_key_unique [of fst])
  show "sorted_wrt (<) (map fst (sort_key fst xs))"
    using assms(1) by (simp add: strict_sorted_iff distinct_keys_sort_key)
  show "sorted_wrt (<) (map fst (sort_key fst ys))"
    using assms(2) by (simp add: strict_sorted_iff distinct_keys_sort_key)
  show "set (sort_key fst xs) = set (sort_key fst ys)"
    using assms(3) by simp
qed

lemma json_of_make_Topic_same:
  assumes "wf_gomap (ConfigEntries d)" and "wf_gomap (ConfigEntries d')" and "same_detail d d'"
  shows "json_of_Topic (make_Topic n d) = json_of_Topic (make_Topic n d')"
proof -
  let ?h = "\<lambda>(k, v). (k, JString (null_to_empty v))"
  from assms(3) have s: "set (ConfigEntries d) = set (ConfigEntries d')"
    by (simp add: same_detail_def same_gomap_def)
  then have e: "(ConfigEntries d = []) = (ConfigEntries d' = [])"
    by (metis set_empty)
  have k: "map fst (map ?h es) = map fst es" for es :: "(string \<times> string option) list"
    by (induction es) auto
  have sk: "sort_key fst (map ?h (ConfigEntries d)) = sort_key fst (map ?h (ConfigEntries d'))"
    using assms(1,2) s by (intro sort_key_unique) (simp_all only: k wf_gomap_def set_map)
  have comp: "map (\<lambda>(k, v). (k, JString v)) (map (\<lambda>(k, v). (k, null_to_empty v)) es) = map ?h es"
    for es :: "(string \<times> string option) list"
    by (induction es) auto
  have c: "sort_key fst (map (\<lambda>(k, v). (k, JString v))
        (map (\<lambda>(k, v). (k, null_to_empty v)) (ConfigEntries d))) =
      sort_key fst (map (\<lambda>(k, v). (k, JString v))
        (map (\<lambda>(k, v). (k, null_to_empty v)) (ConfigEntries d')))"
    unfolding comp by (rule sk)
  have f: "Name (make_Topic n d) = Name (make_Topic n d')"
    "Partitions (make_Topic n d) = Partitions (make_Topic n d')"
    "ReplicationFactor (make_Topic n d) = ReplicationFactor (make_Topic n d')"
    using assms(3) by (simp_all add: make_Topic_def same_detail_def)
  show ?thesis
    unfolding json_of_Topic_def f Configs_make_Topic [OF assms(1)] Configs_make_Topic [OF assms(2)]
    using c e by (simp del: sort_key_simps)
qed

section \<open>Two enumerations of one cluster state\<close>

lemma covers_names:
  assumes "covers ts ts'"
  shows "fst ` set (kept ex ts) \<subseteq> fst ` set (kept ex ts')"
proof
  fix n
  assume "n \<in> fst ` set (kept ex ts)"
  then obtain d where nd: "(n, d) \<in> set ts" and k: "\<not> (ex \<and> begins_with ''__'' n)"
    by (auto simp: set_kept)
  from assms nd obtain d' where "map_of ts' n = Some d'"
    by (auto simp: covers_def list_all_iff split: option.splits)
  then have "(n, d') \<in> set ts'" by (rule map_of_SomeD)
  with k have "(n, d') \<in> set (kept ex ts')" by (simp add: set_kept)
  then show "n \<in> fst ` set (kept ex ts')" by force
qed

lemma same_cluster_names:
  "same_cluster ts ts' \<Longrightarrow> fst ` set (kept ex ts) = fst ` set (kept ex ts')"
  using covers_names [of ts ts' ex] covers_names [of ts' ts ex]
  by (auto simp: same_cluster_def)

lemma export_names_same:
  assumes "wf_gomap ts" and "wf_gomap ts'" and "same_cluster ts ts'"
  shows "map Name (elems (Topics (export_file ex now ts))) =
         map Name (elems (Topics (export_file ex now' ts')))"
proof (rule sorted_distinct_set_unique)
  have a: "sorted_wrt (<) (map Name (elems (Topics (export_file ex now ts))))"
    using assms(1) by (rule strict_sorted_export)
  have b: "sorted_wrt (<) (map Name (elems (Topics (export_file ex now' ts'))))"
    using assms(2) by (rule strict_sorted_export)
  show "sorted (map Name (elems (Topics (export_file ex now ts))))"
    and "distinct (map Name (elems (Topics (export_file ex now ts))))"
    using a by (simp_all add: strict_sorted_iff)
  show "sorted (map Name (elems (Topics (export_file ex now' ts'))))"
    and "distinct (map Name (elems (Topics (export_file ex now' ts'))))"
    using b by (simp_all add: strict_sorted_iff)
  show "set (map Name (elems (Topics (export_file ex now ts)))) =
        set (map Name (elems (Topics (export_file ex now' ts'))))"
    using same_cluster_names [OF assms(3), of ex]
    by (simp add: elems_Topics_export_file set_sort_Slice image_image split_def Name_make_Topic)
qed


lemma export_json_same:
  assumes "wf_cluster ts" and "wf_cluster ts'" and "same_cluster ts ts'"
  shows "map json_of_Topic (elems (Topics (export_file ex now ts))) =
         map json_of_Topic (elems (Topics (export_file ex now' ts')))"
proof -
  let ?L = "elems (Topics (export_file ex now ts))"
  let ?L' = "elems (Topics (export_file ex now' ts'))"
  have wf: "wf_gomap ts" and wf': "wf_gomap ts'"
    using assms(1,2) by (simp_all add: wf_cluster_def)
  have names: "map Name ?L = map Name ?L'"
    using wf wf' assms(3) by (rule export_names_same)
  then have len: "length ?L = length ?L'"
    by (rule map_eq_imp_length_eq)
  have "json_of_Topic (?L ! i) = json_of_Topic (?L' ! i)" if i: "i < length ?L" for i
  proof -
    from i have "?L ! i \<in> set ?L" by simp
    then obtain n d where t: "?L ! i = make_Topic n d" and nd: "(n, d) \<in> set ts"
      unfolding elems_Topics_export_file set_sort_Slice by (auto simp: set_kept)
    from i len have "?L' ! i \<in> set ?L'" by simp
    then obtain n' d' where t': "?L' ! i = make_Topic n' d'" and nd': "(n', d') \<in> set ts'"
      unfolding elems_Topics_export_file set_sort_Slice by (auto simp: set_kept)
    have "Name (?L ! i) = Name (?L' ! i)"
      using names i len by (metis nth_map)
    then have n: "n' = n" by (simp add: t t' Name_make_Topic)
    from assms(3) nd obtain d'' where m: "map_of ts' n = Some d''" and sd: "same_detail d d''"
      by (auto simp: same_cluster_def covers_def list_all_iff split: option.splits)
    have "map_of ts' n = Some d'"
      using wf' nd' unfolding n wf_gomap_def by (rule map_of_is_SomeI)
    with m sd have "same_detail d d'" by simp
    then show ?thesis
      unfolding t t' n
      using wf_cluster_entries [OF assms(1) nd] wf_cluster_entries [OF assms(2) nd']
      by (intro json_of_make_Topic_same)
  qed
  then show ?thesis
    using len by (intro nth_equalityI) simp_all
qed

lemma export_document_same:
  assumes "wf_cluster ts" and "wf_cluster ts'" and "same_cluster ts ts'"
  shows "json_of_ExportFile (export_file ex now ts) = json_of_ExportFile (export_file ex now ts')"
proof -
  have n: "(Topics (export_file ex now ts) = None) = (Topics (export_file ex now ts') = None)"
    unfolding Topics_export_file_None
    using same_cluster_names [OF assms(3), of ex] by (metis image_is_empty set_empty)
  have j: "json_of_ExportFile f =
      JObject [(''kafka_version'', JString (KafkaVersion f)), (''export_time'', JString (ExportTime f)),
        (''topics'', if Topics f = None then JNull else JArray (map json_of_Topic (elems (Topics f))))]"
    for f
    by (cases "Topics f") (simp_all add: json_of_ExportFile_def elems_def)
  have h: "KafkaVersion (export_file ex now ts) = KafkaVersion (export_file ex now ts')"
    "ExportTime (export_file ex now ts) = ExportTime (export_file ex now ts')"
    by (simp_all add: export_file_def)
  show ?thesis
    unfolding j h using n export_json_same [OF assms, of ex now now] by simp
qed

section \<open>The import loop\<close>

lemma import_loop_append:
  "import_loop env b (pre @ rest) s =
     (case import_loop env b pre s of
        (None, s1, evs) \<Rightarrow>
          (case import_loop env b rest s1 of (r, s2, evs') \<Rightarrow> (r, s2, evs @ evs'))
      | (Some e, s1, evs) \<Rightarrow> (Some e, s1, evs))"
proof (induction pre arbitrary: s)
  case Nil
  show ?case by (simp split: prod.splits)
next
  case (Cons t pre)
  obtain err s' where c: "CreateTopic env s (Name t) (topic_detail t) = (err, s')"
    by (cases "CreateTopic env s (Name t) (topic_detail t)")
  show ?case
    using c Cons.IH [of s']
    by (cases err; cases b) (simp_all split: prod.splits option.splits)
qed

lemma import_loop_attempted:
  "import_loop env b ts s = (None, s', evs) \<Longrightarrow> attempted evs = map Name ts"
proof (induction ts arbitrary: s evs)
  case Nil
  then show ?case by simp
next
  case (Cons t ts)
  obtain err s1 where c: "CreateTopic env s (Name t) (topic_detail t) = (err, s1)"
    by (cases "CreateTopic env s (Name t) (topic_detail t)")
  obtain r s2 evs' where l: "import_loop env b ts s1 = (r, s2, evs')"
    by (cases "import_loop env b ts s1")
  from Cons.prems c l have "r = None \<and> s2 = s' \<and> attempted evs = Name t # attempted evs'"
    by (cases err; cases b) auto
  with Cons.IH [of s1 evs'] l show ?case by simp
qed

lemma attempted_append: "attempted (xs @ ys) = attempted xs @ attempted ys"
  by (induction xs rule: attempted.induct) simp_all

lemma import_loop_ifNotExists_no_error: "fst (import_loop env True ts s) = None"
proof (induction ts arbitrary: s)
  case Nil
  show ?case by simp
next
  case (Cons t ts)
  obtain err s' where c: "CreateTopic env s (Name t) (topic_detail t) = (err, s')"
    by (cases "CreateTopic env s (Name t) (topic_detail t)")
  obtain r s'' evs where l: "import_loop env True ts s' = (r, s'', evs)"
    by (cases "import_loop env True ts s'")
  from Cons.IH [of s'] l have "r = None" by simp
  with c l show ?case by (cases err) simp_all
qed

section \<open>Properties of the export\<close>

text \<open>
  C3. The topics of every exported document are strictly sorted by name, ascending in
  the bytewise lexicographic order, for every order in which the cluster's topics were
  enumerated; the names of the enumerated topics are the keys of a Go map, hence
  pairwise distinct.
\<close>

theorem export_topics_strictly_sorted:
  assumes "wf_gomap topics"
  shows "sorted_wrt (<) (map Name (elems (Topics (export_file excludeInternal now topics))))"
  using assms by (rule strict_sorted_export)

theorem export_topics_strictly_sorted_witness:
  "wf_gomap [(''zeta'', demo_detail 1 []), (''alpha'', demo_detail 2 []), (''mid'', demo_detail 3 [])] \<and>
   sorted_wrt (<) (map Name (elems (Topics (export_file True ''2024-01-01T00:00:00Z''
     [(''zeta'', demo_detail 1 []), (''alpha'', demo_detail 2 []), (''mid'', demo_detail 3 [])])))) \<and>
   map Name (elems (Topics (export_file True ''2024-01-01T00:00:00Z''
     [(''zeta'', demo_detail 1 []), (''alpha'', demo_detail 2 []), (''mid'', demo_detail 3 [])]))) =
     [''alpha'', ''mid'', ''zeta'']"
proof -
  have h: "wf_gomap [(''zeta'', demo_detail 1 []), (''alpha'', demo_detail 2 []), (''mid'', demo_detail 3 [])]"
    by (simp add: wf_gomap_def)
  have "map Name (elems (Topics (export_file True ''2024-01-01T00:00:00Z''
     [(''zeta'', demo_detail 1 []), (''alpha'', demo_detail 2 []), (''mid'', demo_detail 3 [])]))) =
     [''alpha'', ''mid'', ''zeta'']"
    by (simp add: export_file_def sort_topics_def elems_def append_slice_def make_Topic_def)
  then show ?thesis
    using h export_topics_strictly_sorted [OF h, of True "''2024-01-01T00:00:00Z''"] by simp
qed

text \<open>
  C5. With \<open>excludeInternal\<close> set, an enumerated topic is left out of the exported
  document exactly when its name begins with the two characters \<open>__\<close>; without it every
  enumerated topic is in the document. The exported topics are the \<open>make_Topic\<close> of
  the enumerated ones that are kept.
\<close>

theorem export_topics_internal_filter:
  "set (elems (Topics (export_file ex now topics))) =
     {make_Topic n d | n d. (n, d) \<in> set topics \<and> \<not> (ex \<and> begins_with ''__'' n)}"
  unfolding elems_Topics_export_file set_sort_Slice by (auto simp: set_kept)

theorem export_topics_internal_filter_witness:
  "make_Topic ''__consumer_offsets'' (demo_detail 50 []) \<notin>
     set (elems (Topics (export_file True ''2024-01-01T00:00:00Z''
       [(''orders'', demo_detail 3 []), (''__consumer_offsets'', demo_detail 50 [])]))) \<and>
   make_Topic ''__consumer_offsets'' (demo_detail 50 []) \<in>
     set (elems (Topics (export_file False ''2024-01-01T00:00:00Z''
       [(''orders'', demo_detail 3 []), (''__consumer_offsets'', demo_detail 50 [])]))) \<and>
   make_Topic ''orders'' (demo_detail 3 []) \<in>
     set (elems (Topics (export_file True ''2024-01-01T00:00:00Z''
       [(''orders'', demo_detail 3 []), (''__consumer_offsets'', demo_detail 50 [])])))"
  unfolding export_topics_internal_filter
  by (simp add: begins_with_def make_Topic_def demo_detail_def)

text \<open>
  C4. Every topic that an export keeps is in the document with a configs map that has
  exactly the keys of the cluster's configuration entries for it: a key whose value is
  the null pointer has the empty string, and every other key has the cluster's value.
  No entry is left out. The entries of the cluster form a Go map, so their keys are
  pairwise distinct.
\<close>

theorem export_configs_null_to_empty:
  assumes "(n, d) \<in> set topics"
    and "\<not> (ex \<and> begins_with ''__'' n)"
    and "wf_gomap (ConfigEntries d)"
  shows "\<exists>t \<in> set (elems (Topics (export_file ex now topics))).
           Name t = n \<and>
           (\<exists>m. Configs t = Some m \<and>
                (\<forall>k. map_of m k = map_option null_to_empty (map_of (ConfigEntries d) k)))"
proof -
  have "make_Topic n d \<in> set (elems (Topics (export_file ex now topics)))"
    using assms(1,2) unfolding elems_Topics_export_file set_sort_Slice
    by (auto simp: set_kept intro!: image_eqI [where x = "(n, d)"])
  moreover have "Name (make_Topic n d) = n"
    by (rule Name_make_Topic)
  moreover have "\<exists>m. Configs (make_Topic n d) = Some m \<and>
      (\<forall>k. map_of m k = map_option null_to_empty (map_of (ConfigEntries d) k))"
    using Configs_make_Topic [OF assms(3)] by (simp add: map_of_normalized)
  ultimately show ?thesis by blast
qed

theorem export_configs_null_to_empty_witness:
  "(''orders'', demo_detail 3 [(''retention.ms'', Some ''1000''), (''cleanup.policy'', None)])
     \<in> set [(''orders'', demo_detail 3 [(''retention.ms'', Some ''1000''), (''cleanup.policy'', None)])] \<and>
   \<not> (True \<and> begins_with ''__'' ''orders'') \<and>
   wf_gomap (ConfigEntries (demo_detail 3 [(''retention.ms'', Some ''1000''), (''cleanup.policy'', None)])) \<and>
   (\<exists>t \<in> set (elems (Topics (export_file True ''2024-01-01T00:00:00Z''
        [(''orders'', demo_detail 3 [(''retention.ms'', Some ''1000''), (''cleanup.policy'', None)])]))).
      Name t = ''orders'' \<and>
      (\<exists>m. Configs t = Some m \<and>
           (\<forall>k. map_of m k = map_option null_to_empty
              (map_of (ConfigEntries (demo_detail 3 [(''retention.ms'', Some ''1000''), (''cleanup.policy'', None)])) k)))) \<and>
   map Configs (elems (Topics (export_file True ''2024-01-01T00:00:00Z''
        [(''orders'', demo_detail 3 [(''retention.ms'', Some ''1000''), (''cleanup.policy'', None)])]))) =
     [Some [(''retention.ms'', ''1000''), (''cleanup.policy'', [])]]"
proof -
  let ?d = "demo_detail 3 [(''retention.ms'', Some ''1000''), (''cleanup.policy'', None)]"
  have 1: "(''orders'', ?d) \<in> set [(''orders'', ?d)]" by simp
  have 2: "\<not> (True \<and> begins_with ''__'' ''orders'')" by (simp add: begins_with_def)
  have 3: "wf_gomap (ConfigEntries ?d)" by (simp add: wf_gomap_def demo_detail_def)
  have 4: "map Configs (elems (Topics (export_file True ''2024-01-01T00:00:00Z'' [(''orders'', ?d)]))) =
     [Some [(''retention.ms'', ''1000''), (''cleanup.policy'', [])]]"
    by (simp add: export_file_def sort_topics_def elems_def append_slice_def make_Topic_def
        demo_detail_def map_assign_def)
  show ?thesis
    using 1 2 3 4 export_configs_null_to_empty [OF 1 2 3, of "''2024-01-01T00:00:00Z''"]
    by blast
qed

text \<open>
  C8. Two exports that enumerate the same cluster state, each in any order of the
  topics and of the configuration entries of each topic, serialize the same sequence of
  topics, also when they run at different times; with the same time stamp the two
  written files are the same bytes.
\<close>

theorem export_deterministic:
  assumes "wf_cluster ts" and "wf_cluster ts'" and "same_cluster ts ts'"
  shows "marshal_elems (map reflect_Topic (elems (Topics (export_file ex now ts)))) =
         marshal_elems (map reflect_Topic (elems (Topics (export_file ex now' ts')))) \<and>
         MarshalIndent render (export_file ex now ts) = MarshalIndent render (export_file ex now ts')"
  using export_json_same [OF assms, of ex now now'] export_document_same [OF assms, of ex now]
  by (simp add: marshal_elems_Topics MarshalIndent_def Marshal_reflect_ExportFile)

theorem export_deterministic_witness:
  "wf_cluster [(''zeta'', demo_detail 1 [(''retention.ms'', Some ''1000''), (''cleanup.policy'', None)]),
               (''alpha'', demo_detail 2 [])] \<and>
   wf_cluster [(''alpha'', demo_detail 2 []),
               (''zeta'', demo_detail 1 [(''cleanup.policy'', None), (''retention.ms'', Some ''1000'')])] \<and>
   same_cluster
     [(''zeta'', demo_detail 1 [(''retention.ms'', Some ''1000''), (''cleanup.policy'', None)]),
      (''alpha'', demo_detail 2 [])]
     [(''alpha'', demo_detail 2 []),
      (''zeta'', demo_detail 1 [(''cleanup.policy'', None), (''retention.ms'', Some ''1000'')])] \<and>
   marshal_elems (map reflect_Topic (elems (Topics (export_file True ''2024-01-01T00:00:00Z''
     [(''zeta'', demo_detail 1 [(''retention.ms'', Some ''1000''), (''cleanup.policy'', None)]),
      (''alpha'', demo_detail 2 [])])))) =
   marshal_elems (map reflect_Topic (elems (Topics (export_file True ''2024-06-30T12:00:00Z''
     [(''alpha'', demo_detail 2 []),
      (''zeta'', demo_detail 1 [(''cleanup.policy'', None), (''retention.ms'', Some ''1000'')])])))) \<and>
   MarshalIndent (\<lambda>j. ''text'') (export_file True ''2024-01-01T00:00:00Z''
     [(''zeta'', demo_detail 1 [(''retention.ms'', Some ''1000''), (''cleanup.policy'', None)]),
      (''alpha'', demo_detail 2 [])]) =
   MarshalIndent (\<lambda>j. ''text'') (export_file True ''2024-01-01T00:00:00Z''
     [(''alpha'', demo_detail 2 []),
      (''zeta'', demo_detail 1 [(''cleanup.policy'', None), (''retention.ms'', Some ''1000'')])])"
proof -
  let ?ts = "[(''zeta'', demo_detail 1 [(''retention.ms'', Some ''1000''), (''cleanup.policy'', None)]),
              (''alpha'', demo_detail 2 [])]"
  let ?ts' = "[(''alpha'', demo_detail 2 []),
               (''zeta'', demo_detail 1 [(''cleanup.policy'', None), (''retention.ms'', Some ''1000'')])]"
  have 1: "wf_cluster ?ts"
    by (simp add: wf_cluster_def wf_gomap_def demo_detail_def)
  have 2: "wf_cluster ?ts'"
    by (simp add: wf_cluster_def wf_gomap_def demo_detail_def)
  have 3: "same_cluster ?ts ?ts'"
    by (auto simp: same_cluster_def covers_def same_detail_def same_gomap_def demo_detail_def)
  show ?thesis
    using 1 2 3
      export_deterministic [OF 1 2 3, of True "''2024-01-01T00:00:00Z''" "''2024-06-30T12:00:00Z''"
        "\<lambda>j. ''text''"]
    by simp
qed

text \<open>
  C10. Encoding a document never fails: for every document, \<open>json.MarshalIndent\<close>
  returns no error and the text of the document's JSON value. So an export that reaches
  line 84 writes that text for the document that it built, never the nil bytes of a
  failed encoding whose error it would have discarded.
\<close>

theorem export_serialization_never_fails:
  "snd (MarshalIndent render f) = None \<and>
   fst (MarshalIndent render f) = render (json_of_ExportFile f) \<and>
   (newAdmin env broker = None \<longrightarrow> ListTopics env s = Inr topics \<longrightarrow>
    exportTopics env s broker out excludeInternal =
      (WriteFile env out (Render env (json_of_ExportFile (export_file excludeInternal (Now env) topics))),
       [EvNewClusterAdmin broker, EvListTopics,
        EvWriteFile out (Render env (json_of_ExportFile (export_file excludeInternal (Now env) topics))),
        EvClose]))"
  by (simp add: MarshalIndent_def Marshal_reflect_ExportFile exportTopics_def Let_def)

theorem export_serialization_never_fails_witness:
  "snd (MarshalIndent (\<lambda>j. ''text'')
     \<lparr>KafkaVersion = ''2.4.0'', ExportTime = ''2024-01-01T00:00:00Z'',
      Topics = Some [demo_topic ''orders'' 3]\<rparr>) = None \<and>
   exportTopics
     (demo_env []
        [(''doc'', json_of_ExportFile (export_file True ''2024-01-01T00:00:00Z''
            [(''orders'', demo_detail 3 [])]))])
     [(''orders'', demo_detail 3 [])] ''broker:9092'' ''topics.json'' True =
   (None, [EvNewClusterAdmin ''broker:9092'', EvListTopics, EvWriteFile ''topics.json'' ''doc'', EvClose])"
proof -
  let ?env = "demo_env []
        [(''doc'', json_of_ExportFile (export_file True ''2024-01-01T00:00:00Z''
            [(''orders'', demo_detail 3 [])]))]"
  have 1: "newAdmin ?env ''broker:9092'' = None"
    by (simp add: newAdmin_def demo_env_def)
  have 2: "ListTopics ?env [(''orders'', demo_detail 3 [])] = Inr [(''orders'', demo_detail 3 [])]"
    by (simp add: demo_env_def)
  have 3: "Now ?env = ''2024-01-01T00:00:00Z''"
    by (simp add: demo_env_def)
  have 4: "WriteFile ?env p d = None" for p d
    by (simp add: demo_env_def)
  have 5: "Render ?env (json_of_ExportFile (export_file True ''2024-01-01T00:00:00Z''
            [(''orders'', demo_detail 3 [])])) = ''doc''"
    by (simp add: demo_env_def)
  show ?thesis
    using export_serialization_never_fails
      [of "\<lambda>j. ''text''"
          "\<lparr>KafkaVersion = ''2.4.0'', ExportTime = ''2024-01-01T00:00:00Z'',
            Topics = Some [demo_topic ''orders'' 3]\<rparr>"
          ?env "''broker:9092''" "[(''orders'', demo_detail 3 [])]" "[(''orders'', demo_detail 3 [])]"
          "''topics.json''" True]
    unfolding 3 4 5 using 1 2 by simp
qed

section \<open>Properties of the codec\<close>



section \<open>Properties of the import\<close>

text \<open>
  C6. Without \<open>ifNotExists\<close>, the first topic of the document whose creation the
  cluster refuses, with \<open>ErrTopicAlreadyExists\<close> or with any other error, ends the
  import with that error: the requests made are those for the earlier topics and for
  this one, no later topic is requested, and the cluster is left in the state that the
  refused request returned, which follows the creations of the earlier topics.
\<close>

theorem importTopics_fail_fast:
  assumes "newAdmin env broker = None"
    and "ReadFile env inp = Inr data"
    and "Unmarshal (Parse env) data = Inr file"
    and "elems (Topics file) = pre @ t # post"
    and "import_loop env False pre s = (None, s1, evs)"
    and "CreateTopic env s1 (Name t) (topic_detail t) = (Some err, s2)"
  shows "importTopics env s broker inp False =
           (Some err, s2,
            [EvNewClusterAdmin broker, EvReadFile inp] @ evs @
            [EvCreateTopic (Name t) (topic_detail t), EvClose]) \<and>
         attempted ([EvNewClusterAdmin broker, EvReadFile inp] @ evs @
            [EvCreateTopic (Name t) (topic_detail t), EvClose]) = map Name pre @ [Name t]"
proof -
  have "import_loop env False (pre @ t # post) s =
          (Some err, s2, evs @ [EvCreateTopic (Name t) (topic_detail t)])"
    using assms(5,6) by (simp add: import_loop_append)
  then have run: "importTopics env s broker inp False =
           (Some err, s2,
            [EvNewClusterAdmin broker, EvReadFile inp] @ evs @
            [EvCreateTopic (Name t) (topic_detail t), EvClose])"
    using assms(1-4) by (simp add: importTopics_def)
  have "attempted evs = map Name pre"
    using assms(5) by (rule import_loop_attempted)
  then show ?thesis using run by (simp add: attempted_append)
qed

theorem importTopics_fail_fast_witness:
  "importTopics
     (demo_env [(''topics.json'', ''doc'')]
        [(''doc'', json_of_ExportFile
            \<lparr>KafkaVersion = ''2.4.0'', ExportTime = ''2024-01-01T00:00:00Z'',
             Topics = Some [demo_topic ''alpha'' 1, demo_topic ''orders'' 3, demo_topic ''zeta'' 2]\<rparr>)])
     [(''orders'', demo_detail 3 [])] ''broker:9092'' ''topics.json'' False =
   (Some ErrTopicAlreadyExists,
    [(''orders'', demo_detail 3 []), (''alpha'', demo_detail 1 [])],
    [EvNewClusterAdmin ''broker:9092'', EvReadFile ''topics.json'',
     EvCreateTopic ''alpha'' (demo_detail 1 []), EvPrint (Created ''alpha''),
     EvCreateTopic ''orders'' (demo_detail 3 []), EvClose])"
proof -
  let ?file = "\<lparr>KafkaVersion = ''2.4.0'', ExportTime = ''2024-01-01T00:00:00Z'',
     Topics = Some [demo_topic ''alpha'' 1, demo_topic ''orders'' 3, demo_topic ''zeta'' 2]\<rparr>"
  let ?env = "demo_env [(''topics.json'', ''doc'')] [(''doc'', json_of_ExportFile ?file)]"
  have 1: "newAdmin ?env ''broker:9092'' = None"
    by (simp add: newAdmin_def demo_env_def)
  have 2: "ReadFile ?env ''topics.json'' = Inr ''doc''"
    by (simp add: demo_env_def)
  have 3: "Unmarshal (Parse ?env) ''doc'' = Inr ?file"
    by (simp add: demo_env_def Unmarshal_def json_of_ExportFile_def
      json_of_Topic_def demo_topic_def decode_ExportFile_def zero_ExportFile_def field_matches_def
      decode_string_def decode_topics_def decode_Topic_def zero_Topic_def decode_int_def
      ascii_lower_def)
  have 4: "elems (Topics ?file) = [demo_topic ''alpha'' 1] @ demo_topic ''orders'' 3 # [demo_topic ''zeta'' 2]"
    by (simp add: elems_def)
  have 5: "import_loop ?env False [demo_topic ''alpha'' 1] [(''orders'', demo_detail 3 [])] =
      (None, [(''orders'', demo_detail 3 []), (''alpha'', demo_detail 1 [])],
       [EvCreateTopic ''alpha'' (demo_detail 1 []), EvPrint (Created ''alpha'')])"
    by (simp add: demo_env_def demo_create_def demo_topic_def demo_detail_def topic_detail_def)
  have 6: "CreateTopic ?env [(''orders'', demo_detail 3 []), (''alpha'', demo_detail 1 [])]
      (Name (demo_topic ''orders'' 3)) (topic_detail (demo_topic ''orders'' 3)) =
      (Some ErrTopicAlreadyExists, [(''orders'', demo_detail 3 []), (''alpha'', demo_detail 1 [])])"
    by (simp add: demo_env_def demo_create_def demo_topic_def)
  show ?thesis
    using importTopics_fail_fast [OF 1 2 3 4 5 6]
    by (simp add: demo_topic_def demo_detail_def topic_detail_def)
qed

text \<open>
  C9. Once the session is open, an input file that cannot be read, or whose text is not
  JSON, or whose JSON does not fit the document type, ends the import with that error:
  the cluster's state is the one before the run, no creation was requested, and opening
  the session is the only call to the cluster that came before the file was read.
\<close>

theorem importTopics_read_or_parse_failure:
  assumes "newAdmin env broker = None"
    and "ReadFile env inp = Inl err \<or>
         (\<exists>data. ReadFile env inp = Inr data \<and> Unmarshal (Parse env) data = Inl err)"
  shows "importTopics env s broker inp ifNotExists =
           (Some err, s, [EvNewClusterAdmin broker, EvReadFile inp, EvClose])"
  using assms by (auto simp: importTopics_def)

theorem importTopics_read_or_parse_failure_witness:
  "importTopics (demo_env [] []) [(''orders'', demo_detail 3 [])] ''broker:9092'' ''topics.json'' True =
     (Some ErrNotExist, [(''orders'', demo_detail 3 [])],
      [EvNewClusterAdmin ''broker:9092'', EvReadFile ''topics.json'', EvClose]) \<and>
   importTopics (demo_env [(''topics.json'', ''{'')] []) [] ''broker:9092'' ''topics.json'' True =
     (Some ErrSyntax, [],
      [EvNewClusterAdmin ''broker:9092'', EvReadFile ''topics.json'', EvClose]) \<and>
   importTopics (demo_env [(''topics.json'', ''[]'')] [(''[]'', JArray [])]) [] ''broker:9092''
       ''topics.json'' False =
     (Some ErrUnmarshalType, [],
      [EvNewClusterAdmin ''broker:9092'', EvReadFile ''topics.json'', EvClose])"
proof -
  have a: "newAdmin (demo_env fs ts) ''broker:9092'' = None" for fs ts
    by (simp add: newAdmin_def demo_env_def)
  have 1: "ReadFile (demo_env [] []) ''topics.json'' = Inl ErrNotExist \<or>
      (\<exists>data. ReadFile (demo_env [] []) ''topics.json'' = Inr data \<and>
         Unmarshal (Parse (demo_env [] [])) data = Inl ErrNotExist)"
    by (simp add: demo_env_def)
  have 2: "ReadFile (demo_env [(''topics.json'', ''{'')] []) ''topics.json'' = Inl ErrSyntax \<or>
      (\<exists>data. ReadFile (demo_env [(''topics.json'', ''{'')] []) ''topics.json'' = Inr data \<and>
         Unmarshal (Parse (demo_env [(''topics.json'', ''{'')] [])) data = Inl ErrSyntax)"
    by (simp add: demo_env_def Unmarshal_def)
  have 3: "ReadFile (demo_env [(''topics.json'', ''[]'')] [(''[]'', JArray [])]) ''topics.json''
        = Inl ErrUnmarshalType \<or>
      (\<exists>data. ReadFile (demo_env [(''topics.json'', ''[]'')] [(''[]'', JArray [])]) ''topics.json''
          = Inr data \<and>
         Unmarshal (Parse (demo_env [(''topics.json'', ''[]'')] [(''[]'', JArray [])])) data
          = Inl ErrUnmarshalType)"
    by (simp add: demo_env_def Unmarshal_def decode_ExportFile_def)
  show ?thesis
    using importTopics_read_or_parse_failure [OF a 1] importTopics_read_or_parse_failure [OF a 2]
      importTopics_read_or_parse_failure [OF a 3]
    by simp
qed

text \<open>
  C1, as the program behaves: with \<open>ifNotExists\<close> set, the import loop never returns an
  error, whatever error a creation request returned. Below, the cluster refuses the
  topic \<open>bad\<close> with \<open>ErrInvalidPartitions\<close>; the run prints the notice for an existing
  topic, goes on to create \<open>good\<close> and returns no error.
\<close>

theorem importTopics_skips_any_error:
  "importTopics
     (demo_env [(''topics.json'', ''doc'')]
        [(''doc'', json_of_ExportFile
            \<lparr>KafkaVersion = ''2.4.0'', ExportTime = ''2024-01-01T00:00:00Z'',
             Topics = Some [demo_topic ''bad'' 0, demo_topic ''good'' 3]\<rparr>)])
     [] ''broker:9092'' ''topics.json'' True =
   (None, [(''good'', demo_detail 3 [])],
    [EvNewClusterAdmin ''broker:9092'', EvReadFile ''topics.json'',
     EvCreateTopic ''bad'' (demo_detail 0 []), EvPrint (SkippedExisting ''bad''),
     EvCreateTopic ''good'' (demo_detail 3 []), EvPrint (Created ''good''), EvClose])"
  by (simp add: importTopics_def demo_env_def newAdmin_def Unmarshal_def json_of_ExportFile_def
      json_of_Topic_def demo_topic_def decode_ExportFile_def zero_ExportFile_def field_matches_def
      decode_string_def decode_topics_def decode_Topic_def zero_Topic_def decode_int_def
      elems_def topic_detail_def demo_create_def demo_detail_def ascii_lower_def)

section \<open>Properties of the command line\<close>

text \<open>
  C2, as the program behaves: a first argument that is neither \<open>export\<close> nor
  \<open>import\<close> prints the line of the supported commands and the process ends with
  status 0, where the run without a command ends with status 1.
\<close>

theorem main_unknown_command_exits_zero:
  "main (demo_env [] []) [] [''kafka-topicctl'', ''delete''] = (0, [], [EvPrint SupportedCommands]) \<and>
   main (demo_env [] []) [] [''kafka-topicctl''] = (1, [], [EvPrint Usage])"
  by (simp add: main_def)

end
